theory Spec2Isabelle
  imports Complex_Main "HOL-Library.Word"
begin

section \<open>Animator: the timeline of createHorizontalBarChartTimeline\<close>

text \<open>
  JavaScript numbers are modelled as exact reals: the durations, start times and tween
  values below are the values the source's arithmetic denotes, without the rounding of
  IEEE doubles.

  The timeline object of the animation library is modelled as the list of the tweens
  placed on it, in the order of the \<^verbatim>\<open>timeline.to(target, vars, position)\<close> calls.
  A tween placed without a position starts at the current end of the timeline, a tween
  placed with a numeric position starts at that absolute time.
\<close>

datatype anim_target = TitleElement | BarState nat | LabelsState | EmptyTarget

datatype ease = EaseNone | Power2Out | Power3Out | EaseDefault

record tween =
  target :: anim_target
  startTime :: real
  tweenDuration :: real
  tweenEase :: ease

type_synonym timeline = "tween list"

definition tweenEnd :: "tween \<Rightarrow> real" where
  "tweenEnd tw = startTime tw + tweenDuration tw"

definition timelineDuration :: "timeline \<Rightarrow> real" where
  "timelineDuration tln = foldr max (map tweenEnd tln) 0"

definition timeline_to ::
  "timeline \<Rightarrow> anim_target \<Rightarrow> real \<Rightarrow> ease \<Rightarrow> real option \<Rightarrow> timeline" where
  "timeline_to tln tgt dur e position =
     tln @ [\<lparr>target = tgt,
            startTime = (case position of None \<Rightarrow> timelineDuration tln | Some p \<Rightarrow> p),
            tweenDuration = dur,
            tweenEase = e\<rparr>]"

datatype animator_error = NoChartAvailable | TypeError

text \<open>
  \<^verbatim>\<open>createHorizontalBarChartTimeline\<close>: \<open>duration\<close> is \<^verbatim>\<open>this.duration\<close>,
  \<open>useTypewriter\<close> is \<^verbatim>\<open>this.useTypewriter\<close>, and \<open>chart\<close> is what
  \<^verbatim>\<open>this.chartRenderer.getChart()\<close> returns: nothing, or a chart whose
  \<^verbatim>\<open>getDatasetMeta(0).data\<close> is the list \<open>bars\<close>. Only the number of bars enters
  the schedule.
\<close>

definition createHorizontalBarChartTimeline ::
  "real \<Rightarrow> bool \<Rightarrow> 'bar list option \<Rightarrow> animator_error + timeline" where
  "createHorizontalBarChartTimeline duration useTypewriter chart =
     (case chart of
        None \<Rightarrow> Inl NoChartAvailable
      | Some bars \<Rightarrow>
          (let titleDuration = duration * 0.2;
               barsDuration = duration * 0.4;
               labelsDuration = duration * 0.2;
               holdDuration = duration * 0.2;
               tl1 = (if useTypewriter
                      then timeline_to [] TitleElement titleDuration EaseNone None
                      else timeline_to [] TitleElement titleDuration Power2Out None);
               tl2 = foldl (\<lambda>tln index.
                        (let delay = real index * 0.15
                         in timeline_to tln (BarState index)
                              (barsDuration / real (length bars)) Power3Out
                              (Some (titleDuration + delay))))
                      tl1 [0..<length bars];
               tl3 = timeline_to tl2 LabelsState labelsDuration Power2Out
                       (Some (titleDuration + barsDuration));
               tl4 = timeline_to tl3 EmptyTarget holdDuration EaseDefault None
           in Inr tl4))"

text \<open>The tween of a timeline that animates a given target, when there is one.\<close>

definition tweenOf :: "timeline \<Rightarrow> anim_target \<Rightarrow> tween option" where
  "tweenOf tln tgt = find (\<lambda>tw. target tw = tgt) tln"

definition barTween :: "real \<Rightarrow> nat \<Rightarrow> nat \<Rightarrow> tween" where
  "barTween duration n index =
     \<lparr>target = BarState index,
      startTime = duration * 0.2 + real index * 0.15,
      tweenDuration = duration * 0.4 / real n,
      tweenEase = Power3Out\<rparr>"

definition titleTween :: "real \<Rightarrow> bool \<Rightarrow> tween" where
  "titleTween duration useTypewriter =
     \<lparr>target = TitleElement,
      startTime = 0,
      tweenDuration = duration * 0.2,
      tweenEase = (if useTypewriter then EaseNone else Power2Out)\<rparr>"

definition labelsTween :: "real \<Rightarrow> tween" where
  "labelsTween duration =
     \<lparr>target = LabelsState,
      startTime = duration * 0.2 + duration * 0.4,
      tweenDuration = duration * 0.2,
      tweenEase = Power2Out\<rparr>"

text \<open>
  Start and end of the growth tween of bar \<open>i\<close> on the timeline that
  \<^verbatim>\<open>createHorizontalBarChartTimeline\<close> returns; nothing when no timeline is built
  or no tween animates that bar.
\<close>

definition barGrowthStart :: "real \<Rightarrow> bool \<Rightarrow> 'bar list option \<Rightarrow> nat \<Rightarrow> real option" where
  "barGrowthStart duration useTypewriter chart i =
     (case createHorizontalBarChartTimeline duration useTypewriter chart of
        Inl _ \<Rightarrow> None
      | Inr tln \<Rightarrow> map_option startTime (tweenOf tln (BarState i)))"

definition barGrowthEnd :: "real \<Rightarrow> bool \<Rightarrow> 'bar list option \<Rightarrow> nat \<Rightarrow> real option" where
  "barGrowthEnd duration useTypewriter chart i =
     (case createHorizontalBarChartTimeline duration useTypewriter chart of
        Inl _ \<Rightarrow> None
      | Inr tln \<Rightarrow> map_option tweenEnd (tweenOf tln (BarState i)))"

section \<open>Animator: frame sampling in the timeline's onUpdate\<close>

text \<open>
  The state of the animator that the sampling reads or could read: the frame rate of
  the configuration it was given (\<^verbatim>\<open>this.chartRenderer.config.fps\<close>), whether the
  debug logger is attached and enabled (\<^verbatim>\<open>this.debugLogger?.isEnabled()\<close>), and
  \<^verbatim>\<open>this.frameCounter\<close>.
\<close>

record animator =
  configFps :: nat
  debugEnabled :: bool
  frameCounter :: int

text \<open>
  The part of the \<^verbatim>\<open>onUpdate\<close> callback of the timeline that drives the debug
  logger, at the time \<open>currentTime\<close> that \<^verbatim>\<open>this.timeline.time()\<close> returns. The
  result is the animator afterwards and, when \<^verbatim>\<open>captureCurrentFrame\<close> is called,
  the frame number it is called with.

  The times are doubles, and every finite double is a real. The two divisions of the
  source are divisions of doubles: the parameter \<open>fdiv\<close> is the division of the host,
  which rounds the quotient to a double. \<^verbatim>\<open>Math.floor\<close>, the comparison and the
  remainder are exact. The frame rate is the local constant \<^verbatim>\<open>fps = 30\<close> of the
  source; the callback does not read the configured frame rate.
\<close>

definition timeline_onUpdate ::
  "(real \<Rightarrow> real \<Rightarrow> real) \<Rightarrow> animator \<Rightarrow> real \<Rightarrow> animator \<times> int option" where
  "timeline_onUpdate fdiv this currentTime =
     (if debugEnabled this then
        (let fps = 30;
             frameInterval = fdiv 1 fps;
             expectedFrame = \<lfloor>fdiv currentTime frameInterval\<rfloor>
         in if expectedFrame > frameCounter this then
              (let this' = this\<lparr>frameCounter := expectedFrame\<rparr>;
                   captureEvery = 10
               in if frameCounter this' = 1 \<or> frameCounter this' mod captureEvery = 0
                  then (this', Some (frameCounter this'))
                  else (this', None))
            else (this, None))
      else (this, None))"

text \<open>
  A run of the timeline: the callback is invoked at the times \<open>ts\<close>, in order, each
  invocation starting from the animator the previous one left. The trace records, for
  every tick, its time, the counter before, the counter after and the capture made.
\<close>

fun run_updates ::
  "(real \<Rightarrow> real \<Rightarrow> real) \<Rightarrow> animator \<Rightarrow> real list
   \<Rightarrow> (real \<times> int \<times> int \<times> int option) list" where
  "run_updates fdiv this [] = []"
| "run_updates fdiv this (t # ts) =
     (let r = timeline_onUpdate fdiv this t
      in (t, frameCounter this, frameCounter (fst r), snd r) # run_updates fdiv (fst r) ts)"

text \<open>
  A host division for the concrete runs below. On the operands listed it is the
  quotient of IEEE double division, rounded to nearest: \<open>1 / 30\<close> is the double
  \<open>4803839602528529 / 2^57\<close>, \<open>1 / 60\<close> is half of it, and dividing the doubles
  \<open>1/32\<close>, \<open>1/2\<close> and \<open>1\<close> by them gives the doubles \<open>0.9375\<close>, \<open>1.875\<close>, \<open>15\<close>
  and \<open>30\<close>. On all other operands, which those runs do not divide, it is the exact
  quotient.
\<close>

definition double_div_sample :: "real \<Rightarrow> real \<Rightarrow> real" where
  "double_div_sample a b =
     (if a = 1 \<and> b = 30 then 4803839602528529 / 144115188075855872
      else if a = 1 \<and> b = 60 then 4803839602528529 / 288230376151711744
      else if a = 1 / 32 \<and> b = 4803839602528529 / 144115188075855872 then 15 / 16
      else if a = 1 / 32 \<and> b = 4803839602528529 / 288230376151711744 then 15 / 8
      else if a = 1 / 2 \<and> b = 4803839602528529 / 144115188075855872 then 15
      else if a = 1 \<and> b = 4803839602528529 / 144115188075855872 then 30
      else a / b)"

section \<open>Animator: the title in redrawChart\<close>

text \<open>
  A JavaScript string is the list of its code units, of any type \<open>'u\<close>;
  \<^verbatim>\<open>s.length\<close> is the length of the list and \<^verbatim>\<open>s.substring(0, n)\<close> its first \<open>n\<close>
  code units, with \<open>n\<close> clamped to the range from 0 to the length. The method
  \<^verbatim>\<open>toUpperCase\<close> belongs to the host and is a parameter of the model: it may change
  the length of a string.

  For the concrete runs below, \<open>toUpperCase_ascii\<close> is that method on strings of ASCII
  characters, where it maps the letters a to z to A to Z and keeps every other
  character.
\<close>

definition toUpperCase_ascii_char :: "char \<Rightarrow> char" where
  "toUpperCase_ascii_char c =
     (case map_of (zip ''abcdefghijklmnopqrstuvwxyz'' ''ABCDEFGHIJKLMNOPQRSTUVWXYZ'') c of
        Some u \<Rightarrow> u
      | None \<Rightarrow> c)"

definition toUpperCase_ascii :: "string \<Rightarrow> string" where
  "toUpperCase_ascii s = map toUpperCase_ascii_char s"

text \<open>
  The title state object (\<^verbatim>\<open>{ charsVisible: c }\<close> in typewriter mode,
  \<^verbatim>\<open>{ opacity: o }\<close> otherwise) and the first argument of \<^verbatim>\<open>redrawChart\<close> as
  the call sites pass it: that object, a number, or \<^verbatim>\<open>undefined\<close>.
\<close>

datatype title_state = CharsVisible real | Opacity real

datatype title_arg = ObjArg title_state | NumArg real | UndefinedArg

record 'u title_draw =
  globalAlpha :: "real option"
  displayTitle :: "'u list"

text \<open>
  The title part of \<^verbatim>\<open>redrawChart\<close>: the global alpha it sets before the
  \<^verbatim>\<open>fillText\<close> of the title (nothing when it leaves the context's alpha as it is)
  and the text it draws. Reading a property of \<^verbatim>\<open>undefined\<close> throws a TypeError;
  reading a missing property of an object or of a number gives \<^verbatim>\<open>undefined\<close>.
\<close>

definition redrawChart_title ::
  "('u list \<Rightarrow> 'u list) \<Rightarrow> bool \<Rightarrow> 'u list \<Rightarrow> title_arg
   \<Rightarrow> animator_error + 'u title_draw" where
  "redrawChart_title toUpperCase useTypewriter title titleElement =
     (let fullTitle = toUpperCase title;
          fade = (case titleElement of
                    UndefinedArg \<Rightarrow> Inl TypeError
                  | ObjArg (Opacity opacity) \<Rightarrow>
                      Inr \<lparr>globalAlpha = Some opacity, displayTitle = fullTitle\<rparr>
                  | _ \<Rightarrow> Inr \<lparr>globalAlpha = Some 0, displayTitle = fullTitle\<rparr>)
      in if useTypewriter then
           (case titleElement of
              UndefinedArg \<Rightarrow> Inl TypeError
            | ObjArg (CharsVisible charsVisible) \<Rightarrow>
                (let chars = \<lfloor>charsVisible\<rfloor>
                 in Inr \<lparr>globalAlpha = None, displayTitle = take (nat chars) fullTitle\<rparr>)
            | _ \<Rightarrow> fade)
         else fade)"

text \<open>
  The \<^verbatim>\<open>onUpdate\<close> of the title tween. The animation library stores the current
  value of the tween in the title state object and then calls the callback, which
  redraws with that object: \<^verbatim>\<open>this.redrawChart(titleElement, barsState, labelsState)\<close>.
  In typewriter mode the tween animates \<^verbatim>\<open>charsVisible\<close> from 0 to the length of the
  upper-cased title with the linear ease; the value it has stored at a tick is the
  input \<open>titleElement\<close> here.
\<close>

definition titleTween_onUpdate ::
  "('u list \<Rightarrow> 'u list) \<Rightarrow> bool \<Rightarrow> 'u list \<Rightarrow> title_state
   \<Rightarrow> animator_error + 'u title_draw" where
  "titleTween_onUpdate toUpperCase useTypewriter title titleElement =
     redrawChart_title toUpperCase useTypewriter title (ObjArg titleElement)"

section \<open>DataLoader\<close>

text \<open>
  JavaScript values as \<^verbatim>\<open>JSON.parse\<close> and \<^verbatim>\<open>response.json()\<close> produce them. A
  number is a double: a finite value (modelled as a real), one of the two infinities
  (\<^verbatim>\<open>JSON.parse("1e999")\<close> is \<^verbatim>\<open>Infinity\<close>) or NaN. An object is the list of
  its own properties.
\<close>

datatype js_number = Finite real | PosInfinity | NegInfinity | NaN

datatype json =
    JNull
  | JBool bool
  | JNumber js_number
  | JString string
  | JArray "json list"
  | JObject "(string \<times> json) list"

fun truthy :: "json \<Rightarrow> bool" where
  "truthy JNull = False"
| "truthy (JBool b) = b"
| "truthy (JNumber (Finite x)) = (x \<noteq> 0)"
| "truthy (JNumber NaN) = False"
| "truthy (JNumber _) = True"
| "truthy (JString s) = (s \<noteq> [])"
| "truthy (JArray _) = True"
| "truthy (JObject _) = True"

fun typeof :: "json \<Rightarrow> string" where
  "typeof JNull = ''object''"
| "typeof (JBool _) = ''boolean''"
| "typeof (JNumber _) = ''number''"
| "typeof (JString _) = ''string''"
| "typeof (JArray _) = ''object''"
| "typeof (JObject _) = ''object''"

fun isNaN :: "json \<Rightarrow> bool" where
  "isNaN (JNumber NaN) = True"
| "isNaN _ = False"

text \<open>
  Reading the property \<^verbatim>\<open>countries\<close> or \<^verbatim>\<open>gdp\<close> of a value that passed the
  \<^verbatim>\<open>typeof data === 'object'\<close> test: an own property of an object, and
  \<^verbatim>\<open>undefined\<close> (here \<open>None\<close>) otherwise, also on an array.
\<close>

fun getProp :: "json \<Rightarrow> string \<Rightarrow> json option" where
  "getProp (JObject props) key = map_of props key"
| "getProp _ key = None"

datatype validation_error =
    NotAnObject
  | CountriesNotArray
  | GdpNotArray
  | LengthMismatch
  | NoElements
  | InvalidGdpValues

text \<open>
  \<^verbatim>\<open>validateData\<close>: \<open>Inl e\<close> is the \<^verbatim>\<open>Error\<close> thrown, \<open>Inr ()\<close> the normal
  return. The test \<^verbatim>\<open>!data.countries || !Array.isArray(data.countries)\<close> passes
  exactly when the property is an array, since every array is truthy.
\<close>

definition validateData :: "json \<Rightarrow> validation_error + unit" where
  "validateData d =
     (if \<not> truthy d \<or> typeof d \<noteq> ''object'' then Inl NotAnObject
      else
        (case getProp d ''countries'' of
           Some (JArray countries) \<Rightarrow>
             (case getProp d ''gdp'' of
                Some (JArray gdp) \<Rightarrow>
                  if length countries \<noteq> length gdp then Inl LengthMismatch
                  else if length countries = 0 then Inl NoElements
                  else
                    (let invalidValues =
                           filter (\<lambda>val. typeof val \<noteq> ''number'' \<or> isNaN val) gdp
                     in if length invalidValues > 0 then Inl InvalidGdpValues
                        else Inr ())
              | _ \<Rightarrow> Inl GdpNotArray)
         | _ \<Rightarrow> Inl CountriesNotArray))"

datatype load_cause =
    Validation validation_error
  | JsonSyntaxError
  | HttpError nat
  | FetchFailed

datatype load_error =
    FileParsingError load_cause
  | FileReadError
  | DataLoadingError load_cause

record data_loader =
  data :: "json option"
  fileName :: "string option"

text \<open>
  A file as the \<^verbatim>\<open>FileReader\<close> sees it: its name, and the text read from it, or
  nothing when the reader fires \<^verbatim>\<open>onerror\<close>.
\<close>

record js_file =
  file_name :: string
  file_text :: "string option"

text \<open>
  \<^verbatim>\<open>loadFromFile\<close>, with the host's \<^verbatim>\<open>JSON.parse\<close> as the parameter \<open>parse\<close>
  (\<open>None\<close> when it throws a SyntaxError). The result is the settlement of the returned
  promise (\<open>Inl\<close> the rejection) and the loader afterwards.
\<close>

definition loadFromFile ::
  "(string \<Rightarrow> json option) \<Rightarrow> data_loader \<Rightarrow> js_file \<Rightarrow> (load_error + json) \<times> data_loader" where
  "loadFromFile parse this f =
     (case file_text f of
        None \<Rightarrow> (Inl FileReadError, this)
      | Some content \<Rightarrow>
          (case parse content of
             None \<Rightarrow> (Inl (FileParsingError JsonSyntaxError), this)
           | Some d \<Rightarrow>
               (case validateData d of
                  Inl e \<Rightarrow> (Inl (FileParsingError (Validation e)), this)
                | Inr _ \<Rightarrow>
                    (Inr d, this\<lparr>data := Some d, fileName := Some (file_name f)\<rparr>))))"

text \<open>
  What \<^verbatim>\<open>fetch(url)\<close> gives: a rejection, or a response with its \<^verbatim>\<open>ok\<close> flag,
  its status and the value \<^verbatim>\<open>response.json()\<close> resolves to (\<open>None\<close> when the body
  is not JSON and it rejects).
\<close>

datatype fetch_result = FetchRejected | FetchResponse bool nat "json option"

text \<open>\<^verbatim>\<open>url.split('/').pop()\<close>: the part of the URL after its last slash.\<close>

definition split_slash_pop :: "string \<Rightarrow> string" where
  "split_slash_pop url = rev (takeWhile (\<lambda>c. c \<noteq> CHR ''/'') (rev url))"

definition loadFromURL ::
  "data_loader \<Rightarrow> string \<Rightarrow> fetch_result \<Rightarrow> (load_error + json) \<times> data_loader" where
  "loadFromURL this url fetched =
     (case fetched of
        FetchRejected \<Rightarrow> (Inl (DataLoadingError FetchFailed), this)
      | FetchResponse ok status body \<Rightarrow>
          if \<not> ok then (Inl (DataLoadingError (HttpError status)), this)
          else
            (case body of
               None \<Rightarrow> (Inl (DataLoadingError JsonSyntaxError), this)
             | Some d \<Rightarrow>
                 (case validateData d of
                    Inl e \<Rightarrow> (Inl (DataLoadingError (Validation e)), this)
                  | Inr _ \<Rightarrow>
                      (Inr d, this\<lparr>data := Some d,
                                    fileName := Some (split_slash_pop url)\<rparr>))))"

text \<open>
  The inputs that fail parsing or validation: the text is not JSON, or the parsed value
  is refused by \<^verbatim>\<open>validateData\<close>.
\<close>

definition file_input_fails :: "(string \<Rightarrow> json option) \<Rightarrow> js_file \<Rightarrow> bool" where
  "file_input_fails parse f =
     (case file_text f of
        None \<Rightarrow> False
      | Some content \<Rightarrow>
          (case parse content of None \<Rightarrow> True | Some d \<Rightarrow> isl (validateData d)))"

definition url_input_fails :: "fetch_result \<Rightarrow> bool" where
  "url_input_fails fetched =
     (case fetched of
        FetchRejected \<Rightarrow> False
      | FetchResponse ok status body \<Rightarrow>
          ok \<and> (case body of None \<Rightarrow> True | Some d \<Rightarrow> isl (validateData d)))"

section \<open>VideoRecorder\<close>

type_synonym byte = "8 word"

record blob =
  blob_bytes :: "byte list"
  blob_type :: string

definition blob_size :: "blob \<Rightarrow> nat" where
  "blob_size b = length (blob_bytes b)"

text \<open>\<^verbatim>\<open>new Blob(parts, { type })\<close>: the bytes of the parts, in order.\<close>

definition Blob :: "blob list \<Rightarrow> string \<Rightarrow> blob" where
  "Blob parts ty = \<lparr>blob_bytes = concat (map blob_bytes parts), blob_type = ty\<rparr>"

text \<open>
  The host environment: which MIME types \<^verbatim>\<open>MediaRecorder.isTypeSupported\<close> accepts.
  The \<^verbatim>\<open>MediaRecorder\<close> constructor throws a NotSupportedError when it is given a
  MIME type that is neither the empty string nor supported; with the empty string the
  host chooses its default format.
\<close>

record host =
  isTypeSupported :: "string \<Rightarrow> bool"

record recorder_options =
  opt_mimeType :: string
  opt_videoBitsPerSecond :: nat

record video_recorder =
  fps :: nat
  videoBitsPerSecond :: nat
  mediaRecorder :: "recorder_options option"
  chunks :: "blob list"
  stream :: "nat option"
  isRecording :: bool
  videoBlob :: "blob option"
  mimeType :: string

datatype recorder_error =
    RecordingAlreadyInProgress
  | NoRecordingInProgress
  | NotSupportedError
  | RecorderErrorEvent

definition mime_types :: "string list" where
  "mime_types =
     [''video/webm;codecs=vp9'', ''video/webm;codecs=vp8'', ''video/webm'', ''video/mp4'']"

definition detectMimeType :: "host \<Rightarrow> string" where
  "detectMimeType h =
     (case find (isTypeSupported h) mime_types of
        Some ty \<Rightarrow> ty
      | None \<Rightarrow> [])"

text \<open>
  The constructor, with the frame rate the caller passes in \<^verbatim>\<open>options\<close> (the
  default 30 when it passes none).
\<close>

definition VideoRecorder :: "host \<Rightarrow> nat option \<Rightarrow> video_recorder" where
  "VideoRecorder h fps_option =
     \<lparr>fps = (case fps_option of None \<Rightarrow> 30 | Some n \<Rightarrow> n),
      videoBitsPerSecond = 5000000,
      mediaRecorder = None,
      chunks = [],
      stream = None,
      isRecording = False,
      videoBlob = None,
      mimeType = detectMimeType h\<rparr>"

text \<open>
  \<^verbatim>\<open>start\<close>: the result is \<open>Inl\<close> the error thrown or \<open>Inr ()\<close>, with the recorder
  afterwards.
\<close>

definition start :: "host \<Rightarrow> video_recorder \<Rightarrow> (recorder_error + unit) \<times> video_recorder" where
  "start h this =
     (if isRecording this then (Inl RecordingAlreadyInProgress, this)
      else
        (let this1 = this\<lparr>chunks := [], videoBlob := None, stream := Some (fps this)\<rparr>;
             recorderOptions = \<lparr>opt_mimeType = mimeType this1,
                                opt_videoBitsPerSecond = videoBitsPerSecond this1\<rparr>
         in if opt_mimeType recorderOptions \<noteq> [] \<and>
               \<not> isTypeSupported h (opt_mimeType recorderOptions)
            then (Inl NotSupportedError, this1)
            else (Inr (), this1\<lparr>mediaRecorder := Some recorderOptions,
                                 isRecording := True\<rparr>)))"

text \<open>
  The \<^verbatim>\<open>ondataavailable\<close> handler; the argument is \<^verbatim>\<open>event.data\<close>, which may be
  missing.
\<close>

definition ondataavailable :: "video_recorder \<Rightarrow> blob option \<Rightarrow> video_recorder" where
  "ondataavailable this event_data =
     (case event_data of
        None \<Rightarrow> this
      | Some d \<Rightarrow> if blob_size d > 0 then this\<lparr>chunks := chunks this @ [d]\<rparr> else this)"

text \<open>
  The events the media recorder fires. While recording it fires data events; after
  \<^verbatim>\<open>mediaRecorder.stop()\<close> it fires the remaining data events and then its stop
  event, or an error event.
\<close>

datatype recorder_event = DataAvailable "blob option" | StopEvent | ErrorEvent

datatype stop_result = Rejected recorder_error | Resolved blob | Pending

text \<open>
  The handlers that \<^verbatim>\<open>stop\<close> installs, run over the events that follow the call:
  the promise settles at the first stop or error event, and stays pending when neither
  arrives.
\<close>

fun await_stop :: "video_recorder \<Rightarrow> recorder_event list \<Rightarrow> stop_result \<times> video_recorder" where
  "await_stop this [] = (Pending, this)"
| "await_stop this (DataAvailable d # events) = await_stop (ondataavailable this d) events"
| "await_stop this (StopEvent # events) =
     (let b = Blob (chunks this) (if mimeType this \<noteq> [] then mimeType this else ''video/webm'')
      in (Resolved b, this\<lparr>videoBlob := Some b, isRecording := False\<rparr>))"
| "await_stop this (ErrorEvent # events) =
     (Rejected RecorderErrorEvent, this\<lparr>isRecording := False\<rparr>)"

definition stop :: "video_recorder \<Rightarrow> recorder_event list \<Rightarrow> stop_result \<times> video_recorder" where
  "stop this events =
     (if \<not> isRecording this \<or> mediaRecorder this = None
      then (Rejected NoRecordingInProgress, this)
      else await_stop this events)"

text \<open>The data events delivered while the recorder is recording.\<close>

definition deliver_data :: "video_recorder \<Rightarrow> blob option list \<Rightarrow> video_recorder" where
  "deliver_data this ds = foldl ondataavailable this ds"

definition event_data_size :: "blob option \<Rightarrow> nat" where
  "event_data_size d = (case d of None \<Rightarrow> 0 | Some b \<Rightarrow> blob_size b)"

definition artifact_size :: "stop_result \<Rightarrow> nat option" where
  "artifact_size r = (case r of Resolved b \<Rightarrow> Some (blob_size b) | _ \<Rightarrow> None)"

text \<open>Two hosts: one that supports none of the listed types, one that supports VP9.\<close>

definition host_none :: host where
  "host_none = \<lparr>isTypeSupported = (\<lambda>ty. False)\<rparr>"

definition host_vp9 :: host where
  "host_vp9 = \<lparr>isTypeSupported = (\<lambda>ty. ty = ''video/webm;codecs=vp9'')\<rparr>"

text \<open>A chunk of four bytes, as a data event delivers it.\<close>

definition sample_chunk :: blob where
  "sample_chunk = \<lparr>blob_bytes = [26, 69, 223, 163], blob_type = ''video/webm''\<rparr>"

section \<open>ConfigManager.getResolution\<close>

text \<open>
  The value of \<^verbatim>\<open>resolutions[resolution]\<close>. The object literal \<^verbatim>\<open>resolutions\<close>
  has three own properties and inherits from \<^verbatim>\<open>Object.prototype\<close>, so the lookup
  of a name that is not an own property gives the member of \<^verbatim>\<open>Object.prototype\<close>
  of that name when there is one (a function, or for \<^verbatim>\<open>__proto__\<close> the prototype
  object itself), and \<^verbatim>\<open>undefined\<close> otherwise.
\<close>

datatype property_value =
    Dimensions nat nat
  | ObjectPrototypeMember string
  | Undefined

definition resolutions :: "(string \<times> property_value) list" where
  "resolutions =
     [(''480p'', Dimensions 854 480),
      (''720p'', Dimensions 1280 720),
      (''1080p'', Dimensions 1920 1080)]"

definition objectPrototypeNames :: "string list" where
  "objectPrototypeNames =
     [''constructor'', ''hasOwnProperty'', ''isPrototypeOf'', ''propertyIsEnumerable'',
      ''toLocaleString'', ''toString'', ''valueOf'', ''__proto__'',
      ''__defineGetter__'', ''__defineSetter__'', ''__lookupGetter__'',
      ''__lookupSetter__'']"

definition resolutions_get :: "string \<Rightarrow> property_value" where
  "resolutions_get key =
     (case map_of resolutions key of
        Some v \<Rightarrow> v
      | None \<Rightarrow> if key \<in> set objectPrototypeNames then ObjectPrototypeMember key
                else Undefined)"

text \<open>
  \<^verbatim>\<open>getResolution\<close>: \<^verbatim>\<open>a || b\<close> is \<open>a\<close> unless \<open>a\<close> is falsy; objects and
  functions are truthy, \<^verbatim>\<open>undefined\<close> is not.
\<close>

definition getResolution :: "string \<Rightarrow> property_value" where
  "getResolution resolution =
     (case resolutions_get resolution of
        Undefined \<Rightarrow> resolutions_get ''1080p''
      | v \<Rightarrow> v)"

section \<open>Properties of the timeline\<close>

subsection \<open>The shape of the timeline\<close>

lemma foldl_timeline_to_positioned:
  "foldl (\<lambda>tln index. timeline_to tln (tg index) (du index) e (Some (po index))) tl0 xs =
   tl0 @ map (\<lambda>index. \<lparr>target = tg index, startTime = po index,
                         tweenDuration = du index, tweenEase = e\<rparr>) xs"
  by (induction xs arbitrary: tl0) (simp_all add: timeline_to_def)

lemma timeline_shape:
  assumes "createHorizontalBarChartTimeline duration tw (Some bars) = Inr tln"
  shows "\<exists>hold. tln = titleTween duration tw
                 # map (barTween duration (length bars)) [0..<length bars]
                 @ [labelsTween duration, hold]"
proof -
  let ?t1 = "if tw then timeline_to [] TitleElement (duration * 0.2) EaseNone None
             else timeline_to [] TitleElement (duration * 0.2) Power2Out None"
  have t1: "?t1 = [titleTween duration tw]"
    by (simp add: timeline_to_def timelineDuration_def titleTween_def)
  have bars: "map (\<lambda>index. \<lparr>target = BarState index,
                     startTime = duration * 0.2 + real index * 0.15,
                     tweenDuration = duration * 0.4 / real (length bars),
                     tweenEase = Power3Out\<rparr>) [0..<length bars]
              = map (barTween duration (length bars)) [0..<length bars]"
    by (simp add: barTween_def)
  from assms have "tln = timeline_to
      (timeline_to (?t1 @ map (barTween duration (length bars)) [0..<length bars])
         LabelsState (duration * 0.2) Power2Out (Some (duration * 0.2 + duration * 0.4)))
      EmptyTarget (duration * 0.2) EaseDefault None"
    unfolding createHorizontalBarChartTimeline_def
    by (simp only: Let_def option.case foldl_timeline_to_positioned bars sum.inject)
  then show ?thesis
    unfolding t1 by (simp add: timeline_to_def labelsTween_def)
qed

lemma find_append_cases:
  "find P (xs @ ys) = (case find P xs of None \<Rightarrow> find P ys | Some x \<Rightarrow> Some x)"
  by (induction xs) simp_all

lemma find_map_barTween:
  "i < n \<Longrightarrow>
   find (\<lambda>tw. target tw = BarState i) (map (barTween d m) [0..<n]) = Some (barTween d m i)"
proof (induction n)
  case 0
  then show ?case by simp
next
  case (Suc n)
  show ?case
  proof (cases "i < n")
    case True
    with Suc.IH show ?thesis by (simp add: find_append_cases)
  next
    case False
    with Suc.prems have eq: "i = n" by simp
    have none: "find (\<lambda>tw. target tw = BarState n) (map (barTween d m) [0..<n]) = None"
      by (simp add: find_None_iff barTween_def)
    show ?thesis
      by (simp add: eq find_append_cases none) (simp add: barTween_def)
  qed
qed

lemma tweenOf_bar:
  assumes "createHorizontalBarChartTimeline duration tw (Some bars) = Inr tln"
    and "i < length bars"
  shows "tweenOf tln (BarState i) = Some (barTween duration (length bars) i)"
proof -
  from timeline_shape [OF assms(1)] obtain hold where
    tln: "tln = titleTween duration tw
            # map (barTween duration (length bars)) [0..<length bars]
            @ [labelsTween duration, hold]"
    by blast
  show ?thesis
    unfolding tweenOf_def tln
    by (simp add: find_append_cases find_map_barTween [OF assms(2)] titleTween_def)
qed

lemma barGrowthStart_eq:
  assumes "i < length bars"
  shows "barGrowthStart duration tw (Some bars) i
         = Some (duration * 0.2 + real i * 0.15)"
proof -
  obtain tln where tln: "createHorizontalBarChartTimeline duration tw (Some bars) = Inr tln"
    by (simp add: createHorizontalBarChartTimeline_def Let_def)
  from tweenOf_bar [OF tln assms] show ?thesis
    by (simp add: barGrowthStart_def tln barTween_def)
qed

lemma barGrowthEnd_eq:
  assumes "i < length bars"
  shows "barGrowthEnd duration tw (Some bars) i
         = Some (duration * 0.2 + real i * 0.15 + duration * 0.4 / real (length bars))"
proof -
  obtain tln where tln: "createHorizontalBarChartTimeline duration tw (Some bars) = Inr tln"
    by (simp add: createHorizontalBarChartTimeline_def Let_def)
  from tweenOf_bar [OF tln assms] show ?thesis
    by (simp add: barGrowthEnd_def tln barTween_def tweenEnd_def)
qed

text \<open>
  C8 (stagger monotonicity). For every chart with at least two bars and every pair of
  adjacent bar indices \<open>i\<close>, \<open>i + 1\<close> below the number of bars, both bars have a growth
  tween on the timeline, and the growth of bar \<open>i + 1\<close> starts no earlier than the growth
  of bar \<open>i\<close>.
\<close>

theorem stagger_monotone:
  assumes "2 \<le> length bars" and "i + 1 < length bars"
  shows "\<exists>s s'. barGrowthStart duration tw (Some bars) i = Some s
              \<and> barGrowthStart duration tw (Some bars) (i + 1) = Some s'
              \<and> s \<le> s'"
proof -
  from assms(2) have i: "i < length bars" by simp
  let ?s = "duration * 0.2 + real i * 0.15"
  let ?s' = "duration * 0.2 + real (i + 1) * 0.15"
  have "barGrowthStart duration tw (Some bars) i = Some ?s"
    by (rule barGrowthStart_eq [OF i])
  moreover have "barGrowthStart duration tw (Some bars) (i + 1) = Some ?s'"
    by (rule barGrowthStart_eq [OF assms(2)])
  moreover have "?s \<le> ?s'"
    by simp
  ultimately show ?thesis
    by blast
qed

theorem stagger_monotone_witness:
  "2 \<le> length [(), ()] \<and> 0 + 1 < length [(), ()]
   \<and> (\<exists>s s'. barGrowthStart 5 False (Some [(), ()]) 0 = Some s
            \<and> barGrowthStart 5 False (Some [(), ()]) (0 + 1) = Some s'
            \<and> s \<le> s')"
  using stagger_monotone [of "[(), ()]" 0 5 False] by simp

text \<open>
  C1 (the last bar finishes within the bars phase), evaluated at a five second
  animation of twenty bars. The title phase ends at 1 s and the bars phase at 3 s
  (0.6 of the duration). The growth of the last bar (index 19) starts at
  1 + 19 * 0.15 = 3.85 s and lasts 2 / 20 = 0.1 s, so it ends at 3.95 s, after the end of
  the bars phase.
\<close>

theorem last_bar_overruns_bars_phase:
  "barGrowthStart 5 False (Some (replicate 20 ())) 19 = Some (77 / 20)
   \<and> barGrowthEnd 5 False (Some (replicate 20 ())) 19 = Some (79 / 20)
   \<and> \<not> (79 / 20 \<le> 0.6 * (5::real))"
proof -
  have i: "19 < length (replicate 20 ())" by simp
  show ?thesis
    by (simp add: barGrowthStart_eq [OF i] barGrowthEnd_eq [OF i])
qed

section \<open>Properties of the frame sampler\<close>

lemma timeline_onUpdate_enabled:
  assumes "debugEnabled this"
  shows "timeline_onUpdate fdiv this t =
     (if \<lfloor>fdiv t (fdiv 1 30)\<rfloor> > frameCounter this
      then (this\<lparr>frameCounter := \<lfloor>fdiv t (fdiv 1 30)\<rfloor>\<rparr>,
            if \<lfloor>fdiv t (fdiv 1 30)\<rfloor> = 1 \<or> \<lfloor>fdiv t (fdiv 1 30)\<rfloor> mod 10 = 0
            then Some \<lfloor>fdiv t (fdiv 1 30)\<rfloor> else None)
      else (this, None))"
  using assms by (simp add: timeline_onUpdate_def Let_def)

lemma timeline_onUpdate_keeps_enabled:
  "debugEnabled (fst (timeline_onUpdate fdiv this t)) = debugEnabled this"
  by (simp add: timeline_onUpdate_def Let_def)

lemma run_updates_tick:
  assumes "(t, c, c', cap) \<in> set (run_updates fdiv this ts)"
  shows "\<exists>that. debugEnabled that = debugEnabled this \<and> c = frameCounter that
           \<and> c' = frameCounter (fst (timeline_onUpdate fdiv that t))
           \<and> cap = snd (timeline_onUpdate fdiv that t)"
  using assms
proof (induction ts arbitrary: this)
  case Nil
  then show ?case by simp
next
  case (Cons u us)
  from Cons.prems
  consider (head) "t = u" "c = frameCounter this"
      "c' = frameCounter (fst (timeline_onUpdate fdiv this u))"
      "cap = snd (timeline_onUpdate fdiv this u)"
    | (tail) "(t, c, c', cap) \<in> set (run_updates fdiv (fst (timeline_onUpdate fdiv this u)) us)"
    by (auto simp add: Let_def)
  then show ?case
  proof cases
    case head
    then show ?thesis by blast
  next
    case tail
    from Cons.IH [OF tail] show ?thesis
      by (simp add: timeline_onUpdate_keeps_enabled)
  qed
qed

lemma timeline_onUpdate_configFps:
  "timeline_onUpdate fdiv (this\<lparr>configFps := n\<rparr>) t =
     (fst (timeline_onUpdate fdiv this t)\<lparr>configFps := n\<rparr>, snd (timeline_onUpdate fdiv this t))"
  by (simp add: timeline_onUpdate_def Let_def)

lemma run_updates_configFps:
  "run_updates fdiv (this\<lparr>configFps := n\<rparr>) ts = run_updates fdiv this ts"
  by (induction ts arbitrary: this) (simp_all add: Let_def timeline_onUpdate_configFps)

text \<open>
  C7, as amended. With the debug logger attached and enabled, on every tick of a run
  of the timeline, from any starting counter: the frame index of the tick is the floor
  of the elapsed time divided by the fixed frame interval 1/30 s, both divisions done
  by the host; when that index exceeds the counter (the elapsed time has crossed a new
  1/30 s boundary) the counter is set to it, and otherwise the counter stays; a capture
  is triggered exactly when the counter has advanced and its new value is 1 or a
  multiple of 10, and the frame captured carries the new counter value. The configured
  frame rate has no influence on the run.
\<close>

theorem frame_sampler_fixed_rate_cadence:
  assumes "debugEnabled this"
    and "(t, c, c', cap) \<in> set (run_updates fdiv this ts)"
  shows "(\<lfloor>fdiv t (fdiv 1 30)\<rfloor> > c \<longrightarrow> c' = \<lfloor>fdiv t (fdiv 1 30)\<rfloor>)
       \<and> (\<lfloor>fdiv t (fdiv 1 30)\<rfloor> \<le> c \<longrightarrow> c' = c)
       \<and> (cap \<noteq> None \<longleftrightarrow> c' > c \<and> (c' = 1 \<or> c' mod 10 = 0))
       \<and> (\<forall>k. cap = Some k \<longrightarrow> k = c')
       \<and> run_updates fdiv (this\<lparr>configFps := n\<rparr>) ts = run_updates fdiv this ts"
proof -
  from run_updates_tick [OF assms(2)] assms(1)
  obtain that where en: "debugEnabled that" and c: "c = frameCounter that"
    and c': "c' = frameCounter (fst (timeline_onUpdate fdiv that t))"
    and cap: "cap = snd (timeline_onUpdate fdiv that t)"
    by auto
  have tick: "(\<lfloor>fdiv t (fdiv 1 30)\<rfloor> > c \<longrightarrow> c' = \<lfloor>fdiv t (fdiv 1 30)\<rfloor>)
       \<and> (\<lfloor>fdiv t (fdiv 1 30)\<rfloor> \<le> c \<longrightarrow> c' = c)
       \<and> (cap \<noteq> None \<longleftrightarrow> c' > c \<and> (c' = 1 \<or> c' mod 10 = 0))
       \<and> (\<forall>k. cap = Some k \<longrightarrow> k = c')"
  proof (cases "\<lfloor>fdiv t (fdiv 1 30)\<rfloor> > frameCounter that")
    case True
    then show ?thesis
      unfolding c c' cap timeline_onUpdate_enabled [OF en] by simp
  next
    case False
    then show ?thesis
      unfolding c c' cap timeline_onUpdate_enabled [OF en] by simp
  qed
  have cfg: "run_updates fdiv (this\<lparr>configFps := n\<rparr>) ts = run_updates fdiv this ts"
    by (rule run_updates_configFps)
  from tick cfg show ?thesis
    by simp
qed

theorem frame_sampler_fixed_rate_cadence_witness:
  "debugEnabled \<lparr>configFps = 30, debugEnabled = True, frameCounter = 0\<rparr>
   \<and> (1, 15, 30, Some 30)
       \<in> set (run_updates double_div_sample
                \<lparr>configFps = 30, debugEnabled = True, frameCounter = 0\<rparr> [1 / 2, 1])
   \<and> \<lfloor>double_div_sample 1 (double_div_sample 1 30)\<rfloor> > 15
   \<and> (30::int) = \<lfloor>double_div_sample 1 (double_div_sample 1 30)\<rfloor>
   \<and> Some (30::int) \<noteq> None
   \<and> (30::int) mod 10 = 0"
proof -
  let ?a0 = "\<lparr>configFps = 30, debugEnabled = True, frameCounter = 0\<rparr>"
  have en: "debugEnabled ?a0"
    by simp
  have interval: "double_div_sample 1 30 = 4803839602528529 / 144115188075855872"
    by (simp add: double_div_sample_def)
  have half: "double_div_sample (1 / 2) (4803839602528529 / 144115188075855872) = 15"
    by (simp add: double_div_sample_def)
  have one: "double_div_sample 1 (4803839602528529 / 144115188075855872) = 30"
    by (simp add: double_div_sample_def)
  have mem: "(1, 15, 30, Some 30) \<in> set (run_updates double_div_sample ?a0 [1 / 2, 1])"
    by (simp add: timeline_onUpdate_def Let_def interval half one)
  have crossed: "\<lfloor>double_div_sample 1 (double_div_sample 1 30)\<rfloor> > 15"
    by (simp add: interval one)
  from frame_sampler_fixed_rate_cadence [OF en mem, of 30] crossed
  have advanced: "(30::int) = \<lfloor>double_div_sample 1 (double_div_sample 1 30)\<rfloor>"
    by blast
  have captured: "Some (30::int) \<noteq> None \<and> (30::int) mod 10 = 0"
    by simp
  from en mem crossed advanced captured show ?thesis
    by blast
qed

text \<open>
  The claim as stated, with the boundary at \<open>1 / frameRate\<close>, fails for a configured
  frame rate of 60: at the elapsed time 1/32 s the first 1/60 s boundary has been
  crossed (the frame index at 60 frames per second is 1, above the counter 0), and the
  callback leaves the counter at 0 and captures nothing.
\<close>

theorem frame_rate_boundary_counterexample:
  "\<lfloor>double_div_sample (1 / 32) (double_div_sample 1 60)\<rfloor> = 1
   \<and> frameCounter (fst (timeline_onUpdate double_div_sample
        \<lparr>configFps = 60, debugEnabled = True, frameCounter = 0\<rparr> (1 / 32))) = 0
   \<and> snd (timeline_onUpdate double_div_sample
        \<lparr>configFps = 60, debugEnabled = True, frameCounter = 0\<rparr> (1 / 32)) = None"
proof -
  have interval60: "double_div_sample 1 60 = 4803839602528529 / 288230376151711744"
    by (simp add: double_div_sample_def)
  have at60: "double_div_sample (1 / 32) (4803839602528529 / 288230376151711744) = 15 / 8"
    by (simp add: double_div_sample_def)
  have interval30: "double_div_sample 1 30 = 4803839602528529 / 144115188075855872"
    by (simp add: double_div_sample_def)
  have at30: "double_div_sample (1 / 32) (4803839602528529 / 144115188075855872) = 15 / 16"
    by (simp add: double_div_sample_def)
  show ?thesis
    by (simp add: timeline_onUpdate_def Let_def interval60 at60 interval30 at30)
qed

section \<open>Properties of the title redraw\<close>

text \<open>
  C3, as amended. In typewriter mode, every redraw made by the title tween draws
  exactly the first \<open>floor charsVisible\<close> code units of the upper-cased title, where
  \<open>charsVisible\<close> is the value the tween has stored in the title state for that tick
  (a value between 0 and the length of the upper-cased title, which the tween reaches
  linearly).
\<close>

theorem typewriter_draws_floor_prefix:
  "titleTween_onUpdate toUpperCase True title (CharsVisible charsVisible) =
     Inr \<lparr>globalAlpha = None,
          displayTitle = take (nat \<lfloor>charsVisible\<rfloor>) (toUpperCase title)\<rparr>"
  by (simp add: titleTween_onUpdate_def redrawChart_title_def Let_def)

theorem typewriter_draws_floor_prefix_witness:
  "titleTween_onUpdate toUpperCase_ascii True ''gdp by country'' (CharsVisible (13 / 2))
     = Inr \<lparr>globalAlpha = None, displayTitle = ''GDP BY''\<rparr>"
  using typewriter_draws_floor_prefix [of toUpperCase_ascii "''gdp by country''" "13 / 2"]
  by (simp add: toUpperCase_ascii_def toUpperCase_ascii_char_def)

text \<open>
  The claim as stated, with \<open>round\<close>, fails: at progress 7/10 of the reveal of the
  title \<open>abcd\<close> the tween has stored 2.8 visible characters (the double nearest 2.8,
  which is \<open>3152519739159347 / 2^50\<close>), the redraw shows the 2 characters \<open>AB\<close>, and the
  first \<open>round (7/10 * 4) = 3\<close> characters are \<open>ABC\<close>.
\<close>

theorem typewriter_round_counterexample:
  "titleTween_onUpdate toUpperCase_ascii True ''abcd''
       (CharsVisible (3152519739159347 / 1125899906842624))
     = Inr \<lparr>globalAlpha = None, displayTitle = ''AB''\<rparr>
   \<and> ''AB'' \<noteq> take (nat (round (7 / 10 * real (length (toUpperCase_ascii ''abcd'')))))
                 (toUpperCase_ascii ''abcd'')"
  by (simp add: titleTween_onUpdate_def redrawChart_title_def Let_def
      toUpperCase_ascii_def toUpperCase_ascii_char_def round_def)

section \<open>Properties of the DataLoader\<close>

lemma valid_value_iff:
  "(typeof v = ''number'' \<and> \<not> isNaN v) \<longleftrightarrow> (\<exists>n. v = JNumber n \<and> n \<noteq> NaN)"
proof (cases v)
  case (JNumber n)
  then show ?thesis by (cases n) simp_all
qed simp_all

lemma no_invalid_values_iff:
  "\<not> 0 < length (filter (\<lambda>val. typeof val \<noteq> ''number'' \<or> isNaN val) gdp)
   \<longleftrightarrow> (\<forall>v \<in> set gdp. \<exists>n. v = JNumber n \<and> n \<noteq> NaN)"
proof -
  have "\<not> 0 < length (filter (\<lambda>val. typeof val \<noteq> ''number'' \<or> isNaN val) gdp)
        \<longleftrightarrow> (\<forall>v \<in> set gdp. typeof v = ''number'' \<and> \<not> isNaN v)"
    by (simp add: filter_empty_conv)
  then show ?thesis
    by (simp only: valid_value_iff)
qed

lemma validateData_object:
  "validateData d = Inr () \<Longrightarrow> \<exists>props. d = JObject props"
  by (cases d) (simp_all add: validateData_def)

text \<open>
  C4, as amended. The validation accepts an input exactly when it is an object whose
  \<open>countries\<close> and \<open>gdp\<close> properties are arrays of equal length with at least one row
  and every \<open>gdp\<close> value is a number other than NaN. Finiteness is not required: an
  infinite value is a number other than NaN.
\<close>

theorem validateData_accepts_iff:
  "validateData d = Inr () \<longleftrightarrow>
     (\<exists>props countries gdp.
        d = JObject props
        \<and> map_of props ''countries'' = Some (JArray countries)
        \<and> map_of props ''gdp'' = Some (JArray gdp)
        \<and> length countries = length gdp
        \<and> 1 \<le> length countries
        \<and> (\<forall>v \<in> set gdp. \<exists>n. v = JNumber n \<and> n \<noteq> NaN))"
proof
  assume ok: "validateData d = Inr ()"
  then obtain props where d: "d = JObject props"
    using validateData_object by blast
  from ok obtain countries where c: "map_of props ''countries'' = Some (JArray countries)"
    unfolding d validateData_def
    by (auto split: option.splits json.splits)
  from ok obtain gdp where g: "map_of props ''gdp'' = Some (JArray gdp)"
    unfolding d validateData_def
    by (auto simp add: c split: option.splits json.splits)
  from ok have rest: "length countries = length gdp \<and> 1 \<le> length countries
      \<and> \<not> 0 < length (filter (\<lambda>val. typeof val \<noteq> ''number'' \<or> isNaN val) gdp)"
    unfolding d validateData_def
    by (simp only: c g Let_def truthy.simps typeof.simps getProp.simps option.case
        json.case split: if_splits)
      (simp_all add: Suc_le_eq)
  with d c g show "\<exists>props countries gdp.
        d = JObject props
        \<and> map_of props ''countries'' = Some (JArray countries)
        \<and> map_of props ''gdp'' = Some (JArray gdp)
        \<and> length countries = length gdp
        \<and> 1 \<le> length countries
        \<and> (\<forall>v \<in> set gdp. \<exists>n. v = JNumber n \<and> n \<noteq> NaN)"
    unfolding no_invalid_values_iff by blast
next
  assume "\<exists>props countries gdp.
        d = JObject props
        \<and> map_of props ''countries'' = Some (JArray countries)
        \<and> map_of props ''gdp'' = Some (JArray gdp)
        \<and> length countries = length gdp
        \<and> 1 \<le> length countries
        \<and> (\<forall>v \<in> set gdp. \<exists>n. v = JNumber n \<and> n \<noteq> NaN)"
  then obtain props countries gdp where d: "d = JObject props"
    and c: "map_of props ''countries'' = Some (JArray countries)"
    and g: "map_of props ''gdp'' = Some (JArray gdp)"
    and len: "length countries = length gdp" "1 \<le> length countries"
    and vals: "\<forall>v \<in> set gdp. \<exists>n. v = JNumber n \<and> n \<noteq> NaN"
    by blast
  from vals have "\<not> 0 < length (filter (\<lambda>val. typeof val \<noteq> ''number'' \<or> isNaN val) gdp)"
    unfolding no_invalid_values_iff .
  moreover from len have "gdp \<noteq> []"
    by auto
  ultimately show "validateData d = Inr ()"
    unfolding d validateData_def using len by (simp add: c g Let_def)
qed

theorem validateData_accepts_iff_witness:
  "validateData (JObject [(''countries'', JArray [JString ''A'', JString ''B'']),
                          (''gdp'', JArray [JNumber (Finite 10), JNumber (Finite 20)])])
   = Inr ()"
proof -
  have "\<exists>props countries gdp.
        JObject [(''countries'', JArray [JString ''A'', JString ''B'']),
                 (''gdp'', JArray [JNumber (Finite 10), JNumber (Finite 20)])]
          = JObject props
        \<and> map_of props ''countries'' = Some (JArray countries)
        \<and> map_of props ''gdp'' = Some (JArray gdp)
        \<and> length countries = length gdp
        \<and> 1 \<le> length countries
        \<and> (\<forall>v \<in> set gdp. \<exists>n. v = JNumber n \<and> n \<noteq> NaN)"
    by simp
  then show ?thesis
    by (simp only: validateData_accepts_iff)
qed

text \<open>
  The claim as stated fails on a value array that holds positive infinity (the value of
  the JSON number \<open>1e999\<close>): the input is accepted.
\<close>

theorem validateData_infinity_counterexample:
  "validateData (JObject [(''countries'', JArray [JString ''A'']),
                          (''gdp'', JArray [JNumber PosInfinity])]) = Inr ()"
  by (simp add: validateData_def Let_def)

text \<open>
  C9 (loads are atomic on failure). For every stored state of the loader and every
  input that fails parsing or validation, \<open>loadFromFile\<close> and \<open>loadFromURL\<close> reject
  with an error and leave the loader, that is the stored data and file name, as it was.
\<close>

theorem load_failure_keeps_state:
  "(file_input_fails parse f \<longrightarrow>
      isl (fst (loadFromFile parse this f)) \<and> snd (loadFromFile parse this f) = this)
   \<and> (url_input_fails fetched \<longrightarrow>
      isl (fst (loadFromURL this url fetched)) \<and> snd (loadFromURL this url fetched) = this)"
  by (auto simp add: file_input_fails_def url_input_fails_def loadFromFile_def
      loadFromURL_def isl_def
      split: option.splits fetch_result.splits sum.splits)

theorem load_failure_keeps_state_witness:
  "file_input_fails (\<lambda>s. if s = ''[]'' then Some (JArray []) else None)
     \<lparr>file_name = ''data.json'', file_text = Some ''[]''\<rparr>
   \<and> url_input_fails (FetchResponse True 200 (Some (JObject [(''countries'', JArray [])])))
   \<and> isl (fst (loadFromFile (\<lambda>s. if s = ''[]'' then Some (JArray []) else None)
        \<lparr>data = Some (JObject []), fileName = Some ''old.json''\<rparr>
        \<lparr>file_name = ''data.json'', file_text = Some ''[]''\<rparr>))
   \<and> snd (loadFromFile (\<lambda>s. if s = ''[]'' then Some (JArray []) else None)
        \<lparr>data = Some (JObject []), fileName = Some ''old.json''\<rparr>
        \<lparr>file_name = ''data.json'', file_text = Some ''[]''\<rparr>)
       = \<lparr>data = Some (JObject []), fileName = Some ''old.json''\<rparr>
   \<and> isl (fst (loadFromURL \<lparr>data = Some (JObject []), fileName = Some ''old.json''\<rparr>
        ''assets/examples/video-data.json''
        (FetchResponse True 200 (Some (JObject [(''countries'', JArray [])])))))
   \<and> snd (loadFromURL \<lparr>data = Some (JObject []), fileName = Some ''old.json''\<rparr>
        ''assets/examples/video-data.json''
        (FetchResponse True 200 (Some (JObject [(''countries'', JArray [])]))))
       = \<lparr>data = Some (JObject []), fileName = Some ''old.json''\<rparr>"
proof -
  have f: "file_input_fails (\<lambda>s. if s = ''[]'' then Some (JArray []) else None)
     \<lparr>file_name = ''data.json'', file_text = Some ''[]''\<rparr>"
    by (simp add: file_input_fails_def validateData_def)
  have u: "url_input_fails (FetchResponse True 200 (Some (JObject [(''countries'', JArray [])])))"
    by (simp add: url_input_fails_def validateData_def)
  from f u
    load_failure_keeps_state [of "\<lambda>s. if s = ''[]'' then Some (JArray []) else None"
      "\<lparr>file_name = ''data.json'', file_text = Some ''[]''\<rparr>"
      "\<lparr>data = Some (JObject []), fileName = Some ''old.json''\<rparr>"
      "FetchResponse True 200 (Some (JObject [(''countries'', JArray [])]))"
      "''assets/examples/video-data.json''"]
  show ?thesis
    by blast
qed

section \<open>Properties of getResolution\<close>

lemma getResolution_listed:
  "getResolution ''480p'' = Dimensions 854 480"
  "getResolution ''720p'' = Dimensions 1280 720"
  "getResolution ''1080p'' = Dimensions 1920 1080"
  by (simp_all add: getResolution_def resolutions_get_def resolutions_def)

lemma getResolution_fallback:
  assumes "resolution \<notin> {''480p'', ''720p'', ''1080p''}"
    and "resolution \<notin> set objectPrototypeNames"
  shows "getResolution resolution = Dimensions 1920 1080"
  using assms
  by (simp add: getResolution_def resolutions_get_def resolutions_def)

text \<open>
  C10 (the fallback of getResolution), evaluated at the resolution string \<open>toString\<close>.
  The string is none of the three listed resolutions, and the lookup finds the member
  \<open>toString\<close> that the table inherits from the object prototype; it is truthy, so it is
  returned in place of the 1080p pair.
\<close>

theorem getResolution_inherited_name:
  "getResolution ''toString'' = ObjectPrototypeMember ''toString''
   \<and> getResolution ''toString'' \<noteq> Dimensions 1920 1080"
  by (simp add: getResolution_def resolutions_get_def resolutions_def
      objectPrototypeNames_def)

section \<open>Properties of the VideoRecorder\<close>

lemma detectMimeType_supported:
  "detectMimeType h = [] \<or> isTypeSupported h (detectMimeType h)"
  by (auto simp add: detectMimeType_def find_Some_iff split: option.splits)

lemma detectMimeType_none:
  assumes "\<forall>ty \<in> set mime_types. \<not> isTypeSupported h ty"
  shows "detectMimeType h = []"
proof -
  from assms have "find (isTypeSupported h) mime_types = None"
    by (simp add: find_None_iff)
  then show ?thesis
    by (simp add: detectMimeType_def)
qed

lemma start_idle:
  assumes "\<not> isRecording r" and "mimeType r = [] \<or> isTypeSupported h (mimeType r)"
  shows "start h r =
     (Inr (), r\<lparr>chunks := [], videoBlob := None, stream := Some (fps r),
               mediaRecorder := Some \<lparr>opt_mimeType = mimeType r,
                                        opt_videoBitsPerSecond = videoBitsPerSecond r\<rparr>,
               isRecording := True\<rparr>)"
  using assms by (auto simp add: start_def Let_def)

lemma start_ok_iff:
  "fst (start h r) = Inr () \<longleftrightarrow>
     \<not> isRecording r \<and> (mimeType r = [] \<or> isTypeSupported h (mimeType r))"
  by (auto simp add: start_def Let_def)

lemma start_mimeType: "mimeType (snd (start h r)) = mimeType r"
  by (simp add: start_def Let_def)

lemma ondataavailable_mimeType: "mimeType (ondataavailable r d) = mimeType r"
  by (simp add: ondataavailable_def split: option.splits)

lemma deliver_data_mimeType: "mimeType (deliver_data r ds) = mimeType r"
  unfolding deliver_data_def
  by (induction ds arbitrary: r) (simp_all add: ondataavailable_mimeType)

lemma await_stop_resolved:
  assumes "await_stop r events = (Resolved b, r')"
  shows "\<not> isRecording r' \<and> videoBlob r' = Some b \<and> mimeType r' = mimeType r"
  using assms
proof (induction r events rule: await_stop.induct)
  case (2 this d events)
  then show ?case by (simp add: ondataavailable_mimeType)
qed (auto simp add: Let_def)

lemma chunks_size_ondataavailable:
  "sum_list (map blob_size (chunks (ondataavailable r d)))
   = sum_list (map blob_size (chunks r)) + event_data_size d"
  by (simp add: ondataavailable_def event_data_size_def split: option.splits)

lemma chunks_size_deliver_data:
  "sum_list (map blob_size (chunks (deliver_data r ds)))
   = sum_list (map blob_size (chunks r)) + sum_list (map event_data_size ds)"
  unfolding deliver_data_def
  by (induction ds arbitrary: r) (simp_all add: chunks_size_ondataavailable)

lemma blob_size_Blob: "blob_size (Blob parts ty) = sum_list (map blob_size parts)"
  by (induction parts) (simp_all add: blob_size_def Blob_def)

lemma await_stop_data_then_stop:
  "artifact_size (fst (await_stop r (map DataAvailable ds @ [StopEvent])))
   = Some (sum_list (map blob_size (chunks r)) + sum_list (map event_data_size ds))"
  by (induction ds arbitrary: r)
    (simp_all add: artifact_size_def Let_def blob_size_Blob chunks_size_ondataavailable)

text \<open>
  C2, as amended. After a successful \<open>start\<close>/\<open>stop\<close> cycle has brought a recorder to
  the stopped state (not recording, artifact present), a subsequent \<open>start\<close> on the same
  instance succeeds: it discards the chunks and the artifact of the previous recording
  and the recorder is recording again. On any recorder, \<open>start\<close> fails with the state
  error exactly when a recording is in progress.
\<close>

theorem start_after_stop_restarts:
  assumes "mimeType r0 = detectMimeType h"
    and "start h r0 = (Inr (), r1)"
    and "stop (deliver_data r1 ds) events = (Resolved b, r2)"
  shows "\<not> isRecording r2 \<and> videoBlob r2 = Some b
       \<and> fst (start h r2) = Inr ()
       \<and> isRecording (snd (start h r2))
       \<and> chunks (snd (start h r2)) = []
       \<and> videoBlob (snd (start h r2)) = None
       \<and> (fst (start h r) = Inl RecordingAlreadyInProgress \<longleftrightarrow> isRecording r)"
proof -
  from assms(2) have m1: "mimeType r1 = mimeType r0"
    using start_mimeType [of h r0] by simp
  from assms(3) have aw: "await_stop (deliver_data r1 ds) events = (Resolved b, r2)"
    by (simp add: stop_def split: if_splits)
  from await_stop_resolved [OF aw]
  have r2: "\<not> isRecording r2" "videoBlob r2 = Some b"
    "mimeType r2 = mimeType (deliver_data r1 ds)"
    by simp_all
  from r2(3) m1 assms(1) have "mimeType r2 = detectMimeType h"
    by (simp add: deliver_data_mimeType)
  with detectMimeType_supported [of h]
  have sup: "mimeType r2 = [] \<or> isTypeSupported h (mimeType r2)"
    by simp
  have restart: "fst (start h r2) = Inr ()
       \<and> isRecording (snd (start h r2))
       \<and> chunks (snd (start h r2)) = []
       \<and> videoBlob (snd (start h r2)) = None"
    by (simp add: start_idle [OF r2(1) sup])
  have only: "fst (start h r) = Inl RecordingAlreadyInProgress \<longleftrightarrow> isRecording r"
    by (simp add: start_def Let_def)
  from r2(1) r2(2) restart only show ?thesis
    by simp
qed

theorem start_after_stop_restarts_witness:
  "mimeType (VideoRecorder host_vp9 (Some 30)) = detectMimeType host_vp9
   \<and> start host_vp9 (VideoRecorder host_vp9 (Some 30))
       = (Inr (), snd (start host_vp9 (VideoRecorder host_vp9 (Some 30))))
   \<and> fst (stop (deliver_data (snd (start host_vp9 (VideoRecorder host_vp9 (Some 30))))
                  [Some sample_chunk])
            [StopEvent])
       = Resolved \<lparr>blob_bytes = [26, 69, 223, 163], blob_type = ''video/webm;codecs=vp9''\<rparr>
   \<and> chunks (snd (stop (deliver_data (snd (start host_vp9 (VideoRecorder host_vp9 (Some 30))))
                           [Some sample_chunk])
                     [StopEvent]))
       = [sample_chunk]
   \<and> fst (start host_vp9
        (snd (stop (deliver_data (snd (start host_vp9 (VideoRecorder host_vp9 (Some 30))))
                      [Some sample_chunk])
                [StopEvent]))) = Inr ()
   \<and> chunks (snd (start host_vp9
        (snd (stop (deliver_data (snd (start host_vp9 (VideoRecorder host_vp9 (Some 30))))
                      [Some sample_chunk])
                [StopEvent])))) = []
   \<and> videoBlob (snd (start host_vp9
        (snd (stop (deliver_data (snd (start host_vp9 (VideoRecorder host_vp9 (Some 30))))
                      [Some sample_chunk])
                [StopEvent])))) = None
   \<and> fst (start host_vp9 (snd (start host_vp9 (VideoRecorder host_vp9 (Some 30)))))
       = Inl RecordingAlreadyInProgress"
proof -
  let ?r0 = "VideoRecorder host_vp9 (Some 30)"
  let ?r1 = "snd (start host_vp9 ?r0)"
  let ?b = "\<lparr>blob_bytes = [26, 69, 223, 163], blob_type = ''video/webm;codecs=vp9''\<rparr>"
  let ?r2 = "snd (stop (deliver_data ?r1 [Some sample_chunk]) [StopEvent])"
  have dm: "detectMimeType host_vp9 = ''video/webm;codecs=vp9''"
    by (simp add: detectMimeType_def mime_types_def host_vp9_def)
  have sup: "isTypeSupported host_vp9 ''video/webm;codecs=vp9''"
    by (simp add: host_vp9_def)
  have a: "mimeType ?r0 = detectMimeType host_vp9"
    by (simp add: VideoRecorder_def)
  have r1: "start host_vp9 ?r0 =
      (Inr (), \<lparr>fps = 30, videoBitsPerSecond = 5000000,
                mediaRecorder = Some \<lparr>opt_mimeType = ''video/webm;codecs=vp9'',
                                         opt_videoBitsPerSecond = 5000000\<rparr>,
                chunks = [], stream = Some 30, isRecording = True, videoBlob = None,
                mimeType = ''video/webm;codecs=vp9''\<rparr>)"
    by (simp add: start_def Let_def VideoRecorder_def dm sup)
  have b: "start host_vp9 ?r0 = (Inr (), ?r1)"
    by (simp add: r1)
  have rec: "isRecording ?r1"
    by (simp add: r1)
  have stopped: "stop (deliver_data ?r1 [Some sample_chunk]) [StopEvent] =
      (Resolved ?b,
       \<lparr>fps = 30, videoBitsPerSecond = 5000000,
        mediaRecorder = Some \<lparr>opt_mimeType = ''video/webm;codecs=vp9'',
                                 opt_videoBitsPerSecond = 5000000\<rparr>,
        chunks = [sample_chunk], stream = Some 30, isRecording = False,
        videoBlob = Some ?b, mimeType = ''video/webm;codecs=vp9''\<rparr>)"
    by (simp add: r1 stop_def deliver_data_def ondataavailable_def blob_size_def Blob_def
        sample_chunk_def Let_def)
  have c: "stop (deliver_data ?r1 [Some sample_chunk]) [StopEvent] = (Resolved ?b, ?r2)"
    by (simp add: stopped)
  have res: "fst (stop (deliver_data ?r1 [Some sample_chunk]) [StopEvent]) = Resolved ?b"
    by (simp add: stopped)
  have kept: "chunks ?r2 = [sample_chunk]"
    by (simp add: stopped)
  from start_after_stop_restarts [OF a b c, of ?r1] rec
  have again: "fst (start host_vp9 ?r2) = Inr ()"
    and cleared: "chunks (snd (start host_vp9 ?r2)) = []"
    and dropped: "videoBlob (snd (start host_vp9 ?r2)) = None"
    and refused: "fst (start host_vp9 ?r1) = Inl RecordingAlreadyInProgress"
    by blast+
  from a b res kept again cleared dropped refused show ?thesis
    by blast
qed

text \<open>
  The claim as stated fails: on a host that supports VP9, a fresh recorder is started,
  stopped with no data delivered, and started again; the second start does not fail.
\<close>

theorem restart_counterexample:
  "fst (start host_vp9 (VideoRecorder host_vp9 (Some 30))) = Inr ()
   \<and> fst (stop (snd (start host_vp9 (VideoRecorder host_vp9 (Some 30)))) [StopEvent])
       = Resolved \<lparr>blob_bytes = [], blob_type = ''video/webm;codecs=vp9''\<rparr>
   \<and> fst (start host_vp9
        (snd (stop (snd (start host_vp9 (VideoRecorder host_vp9 (Some 30)))) [StopEvent])))
       = Inr ()"
proof -
  have dm: "detectMimeType host_vp9 = ''video/webm;codecs=vp9''"
    by (simp add: detectMimeType_def mime_types_def host_vp9_def)
  show ?thesis
    by (simp add: start_def Let_def VideoRecorder_def dm stop_def Blob_def)
      (simp add: host_vp9_def)
qed

text \<open>
  C5, as amended. When the host supports no codec of the preference list,
  \<open>detectMimeType\<close> falls back to the empty MIME type, which leaves the choice of format
  to the host, and \<open>start\<close> on a newly constructed recorder does not fail: it creates the
  media recorder with the empty MIME type and the recorder is recording.
\<close>

theorem no_codec_falls_back_to_default:
  assumes "\<forall>ty \<in> set mime_types. \<not> isTypeSupported h ty"
  shows "detectMimeType h = []
       \<and> fst (start h (VideoRecorder h fps_option)) = Inr ()
       \<and> isRecording (snd (start h (VideoRecorder h fps_option)))
       \<and> mediaRecorder (snd (start h (VideoRecorder h fps_option)))
           = Some \<lparr>opt_mimeType = [], opt_videoBitsPerSecond = 5000000\<rparr>"
proof -
  from detectMimeType_none [OF assms] have dm: "detectMimeType h = []" .
  then show ?thesis
    by (simp add: start_def Let_def VideoRecorder_def)
qed

theorem no_codec_falls_back_to_default_witness:
  "\<not> isTypeSupported host_none ''video/webm;codecs=vp9''
   \<and> \<not> isTypeSupported host_none ''video/webm;codecs=vp8''
   \<and> \<not> isTypeSupported host_none ''video/webm''
   \<and> \<not> isTypeSupported host_none ''video/mp4''
   \<and> detectMimeType host_none = []
   \<and> fst (start host_none (VideoRecorder host_none None)) = Inr ()
   \<and> isRecording (snd (start host_none (VideoRecorder host_none None)))"
proof -
  have none: "\<forall>ty \<in> set mime_types. \<not> isTypeSupported host_none ty"
    by (simp add: host_none_def)
  from no_codec_falls_back_to_default [OF none, of None] show ?thesis
    by (simp add: host_none_def)
qed

text \<open>
  The claim as stated fails: on a host that supports none of the four types, \<open>start\<close>
  on a new recorder returns normally and the recorder is recording.
\<close>

theorem unsupported_encoder_counterexample:
  "\<not> isTypeSupported host_none ''video/webm;codecs=vp9''
   \<and> \<not> isTypeSupported host_none ''video/webm;codecs=vp8''
   \<and> \<not> isTypeSupported host_none ''video/webm''
   \<and> \<not> isTypeSupported host_none ''video/mp4''
   \<and> fst (start host_none (VideoRecorder host_none (Some 30))) = Inr ()
   \<and> isRecording (snd (start host_none (VideoRecorder host_none (Some 30))))"
  by (simp add: start_def Let_def VideoRecorder_def detectMimeType_def mime_types_def
      host_none_def)

text \<open>
  C6, as amended. \<open>stop\<close> called when no recording is in progress (also before any
  \<open>start\<close>) fails with the state error and changes nothing; \<open>start\<close> called while a
  recording is in progress fails with the state error, in particular the second of two
  consecutive \<open>start\<close> calls; and a successful \<open>start\<close> followed by a \<open>stop\<close> that
  completes yields an artifact whose byte length is the total size of the data delivered
  between the two calls and during the stop, which is greater than 0 exactly when some
  delivered data is not empty.
\<close>

theorem recorder_state_errors_and_artifact:
  "(\<not> isRecording r \<or> mediaRecorder r = None \<longrightarrow>
      stop r events = (Rejected NoRecordingInProgress, r))
   \<and> (isRecording r \<longrightarrow> start h r = (Inl RecordingAlreadyInProgress, r))
   \<and> (fst (start h r) = Inr () \<longrightarrow>
        fst (start h (snd (start h r))) = Inl RecordingAlreadyInProgress)
   \<and> (fst (start h r) = Inr () \<longrightarrow>
        artifact_size (fst (stop (deliver_data (snd (start h r)) ds)
                              (map DataAvailable ds' @ [StopEvent])))
          = Some (sum_list (map event_data_size (ds @ ds'))))"
proof -
  have a: "\<not> isRecording r \<or> mediaRecorder r = None \<longrightarrow>
      stop r events = (Rejected NoRecordingInProgress, r)"
    by (simp add: stop_def)
  have b: "isRecording r \<longrightarrow> start h r = (Inl RecordingAlreadyInProgress, r)"
    by (simp add: start_def)
  have c: "fst (start h r) = Inr () \<longrightarrow>
        fst (start h (snd (start h r))) = Inl RecordingAlreadyInProgress"
  proof
    assume "fst (start h r) = Inr ()"
    then have idle: "\<not> isRecording r"
      and sup: "mimeType r = [] \<or> isTypeSupported h (mimeType r)"
      by (simp_all add: start_ok_iff)
    have "isRecording (snd (start h r))"
      by (simp add: start_idle [OF idle sup])
    then show "fst (start h (snd (start h r))) = Inl RecordingAlreadyInProgress"
      by (simp add: start_def)
  qed
  have d: "artifact_size (fst (stop (deliver_data (snd (start h r)) ds)
                              (map DataAvailable ds' @ [StopEvent])))
          = Some (sum_list (map event_data_size (ds @ ds')))"
    if ok: "fst (start h r) = Inr ()"
  proof -
    let ?r1 = "snd (start h r)"
    from ok have idle: "\<not> isRecording r"
      and sup: "mimeType r = [] \<or> isTypeSupported h (mimeType r)"
      by (simp_all add: start_ok_iff)
    have r1: "isRecording ?r1" "mediaRecorder ?r1 \<noteq> None" "chunks ?r1 = []"
      by (simp_all add: start_idle [OF idle sup])
    have keep: "isRecording (deliver_data x ds) = isRecording x
        \<and> mediaRecorder (deliver_data x ds) = mediaRecorder x" for x
      unfolding deliver_data_def
      by (induction ds arbitrary: x) (simp_all add: ondataavailable_def split: option.splits)
    from r1 keep [of ?r1]
    have "isRecording (deliver_data ?r1 ds)" "mediaRecorder (deliver_data ?r1 ds) \<noteq> None"
      by simp_all
    then have "stop (deliver_data ?r1 ds) (map DataAvailable ds' @ [StopEvent])
          = await_stop (deliver_data ?r1 ds) (map DataAvailable ds' @ [StopEvent])"
      unfolding stop_def by (simp only: simp_thms if_False)
    then show ?thesis
      by (simp add: await_stop_data_then_stop chunks_size_deliver_data r1)
  qed
  from a b c d show ?thesis
    by blast
qed

theorem recorder_state_errors_and_artifact_witness:
  "fst (start host_vp9 (VideoRecorder host_vp9 None)) = Inr ()
   \<and> stop (VideoRecorder host_vp9 None) [StopEvent]
       = (Rejected NoRecordingInProgress, VideoRecorder host_vp9 None)
   \<and> fst (start host_vp9 (snd (start host_vp9 (VideoRecorder host_vp9 None))))
       = Inl RecordingAlreadyInProgress
   \<and> artifact_size (fst (stop
        (deliver_data (snd (start host_vp9 (VideoRecorder host_vp9 None)))
           [Some \<lparr>blob_bytes = [26, 69, 223, 163], blob_type = ''video/webm''\<rparr>])
        (map DataAvailable [Some \<lparr>blob_bytes = [1, 2], blob_type = ''video/webm''\<rparr>, None]
           @ [StopEvent])))
       = Some 6"
proof -
  have dm: "detectMimeType host_vp9 = ''video/webm;codecs=vp9''"
    by (simp add: detectMimeType_def mime_types_def host_vp9_def)
  have ok: "fst (start host_vp9 (VideoRecorder host_vp9 None)) = Inr ()"
    by (simp add: start_def Let_def VideoRecorder_def dm) (simp add: host_vp9_def)
  have idle: "\<not> isRecording (VideoRecorder host_vp9 None)"
    by (simp add: VideoRecorder_def)
  from ok idle
    recorder_state_errors_and_artifact [of "VideoRecorder host_vp9 None" "[StopEvent]"
      host_vp9 "[Some \<lparr>blob_bytes = [26, 69, 223, 163], blob_type = ''video/webm''\<rparr>]"
      "[Some \<lparr>blob_bytes = [1, 2], blob_type = ''video/webm''\<rparr>, None]"]
  show ?thesis
    by (simp add: event_data_size_def blob_size_def)
qed

text \<open>
  The claim as stated fails in its last part: a recorder started and then stopped with
  no data delivered completes the cycle with an artifact of 0 bytes.
\<close>

theorem empty_artifact_counterexample:
  "fst (start host_vp9 (VideoRecorder host_vp9 (Some 30))) = Inr ()
   \<and> artifact_size (fst (stop (snd (start host_vp9 (VideoRecorder host_vp9 (Some 30))))
                           [DataAvailable (Some \<lparr>blob_bytes = [], blob_type = []\<rparr>),
                            StopEvent]))
       = Some 0"
proof -
  have dm: "detectMimeType host_vp9 = ''video/webm;codecs=vp9''"
    by (simp add: detectMimeType_def mime_types_def host_vp9_def)
  show ?thesis
    by (simp add: start_def Let_def VideoRecorder_def dm stop_def Blob_def artifact_size_def
        ondataavailable_def blob_size_def)
      (simp add: host_vp9_def)
qed

end
